theory Spec2Isabelle
  imports Complex_Main
begin

section \<open>JavaScript strings\<close>

text \<open>
  A JavaScript string is a sequence of UTF-16 code units. The parser of \<^verbatim>\<open>app.js\<close>
  depends on which code units \<^verbatim>\<open>trim()\<close>, \<^verbatim>\<open>\s\<close>, \<^verbatim>\<open>\d\<close> and \<^verbatim>\<open>.\<close> accept, and some
  of them lie beyond Latin-1, so a string is modelled as the list of its code units, each
  a natural number. \<open>js\<close> turns an Isabelle string literal into such a list.
\<close>

type_synonym jsstring = "nat list"

definition js :: "string \<Rightarrow> jsstring" where
  "js s = map of_char s"

text \<open>ECMAScript LineTerminator: LF, CR, LS, PS.\<close>

definition is_line_terminator :: "nat \<Rightarrow> bool" where
  "is_line_terminator c = (c = 10 \<or> c = 13 \<or> c = 8232 \<or> c = 8233)"

text \<open>
  ECMAScript WhiteSpace: TAB, VT, FF, ZWNBSP and the code points of category Zs
  (SP, NBSP, U+1680, U+2000 to U+200A, U+202F, U+205F, U+3000).
\<close>

definition is_white_space :: "nat \<Rightarrow> bool" where
  "is_white_space c =
     (c = 9 \<or> c = 11 \<or> c = 12 \<or> c = 32 \<or> c = 160 \<or> c = 5760 \<or> (8192 \<le> c \<and> c \<le> 8202)
      \<or> c = 8239 \<or> c = 8287 \<or> c = 12288 \<or> c = 65279)"

text \<open>
  The class \<^verbatim>\<open>\s\<close> of a regular expression and the code units that \<^verbatim>\<open>String.prototype.trim\<close>
  strips are the same set: WhiteSpace and LineTerminator.
\<close>

definition is_space :: "nat \<Rightarrow> bool" where
  "is_space c = (is_white_space c \<or> is_line_terminator c)"

text \<open>The class \<^verbatim>\<open>\d\<close>: the ten ASCII digits.\<close>

definition is_digit :: "nat \<Rightarrow> bool" where
  "is_digit c = (48 \<le> c \<and> c \<le> 57)"

text \<open>\<^verbatim>\<open>s.trim()\<close>\<close>

definition trim :: "jsstring \<Rightarrow> jsstring" where
  "trim s = rev (dropWhile is_space (rev (dropWhile is_space s)))"

text \<open>
  \<^verbatim>\<open>s.split(sep)\<close> for a separator of one code unit: the pieces between the separators,
  so that the empty string gives one empty piece.
\<close>

fun split :: "jsstring \<Rightarrow> nat \<Rightarrow> jsstring list" where
  "split [] sep = [[]]"
| "split (c # cs) sep =
     (if c = sep then [] # split cs sep
      else (case split cs sep of [] \<Rightarrow> [[c]] | l # ls \<Rightarrow> (c # l) # ls))"

text \<open>\<^verbatim>\<open>xs.join(sep)\<close> on an array of strings.\<close>

fun join :: "jsstring list \<Rightarrow> jsstring \<Rightarrow> jsstring" where
  "join [] sep = []"
| "join [x] sep = x"
| "join (x # y # ys) sep = x @ sep @ join (y # ys) sep"

text \<open>\<^verbatim>\<open>s.startsWith(p)\<close> and \<^verbatim>\<open>s.includes(sub)\<close>: \<open>sub\<close> occurs in \<open>s\<close> as a substring.\<close>

fun startsWith :: "jsstring \<Rightarrow> jsstring \<Rightarrow> bool" where
  "startsWith s [] = True"
| "startsWith [] (p # ps) = False"
| "startsWith (c # cs) (p # ps) = (c = p \<and> startsWith cs ps)"

fun includes_str :: "jsstring \<Rightarrow> jsstring \<Rightarrow> bool" where
  "includes_str [] sub = (sub = [])"
| "includes_str (c # cs) sub = (startsWith (c # cs) sub \<or> includes_str cs sub)"

section \<open>Numbers\<close>

text \<open>
  The counts of deck entries are JavaScript numbers that hold non-negative integers.
  They are modelled as natural numbers, with exact addition: a JavaScript number is
  exact for every integer up to \<open>2 ^ 53\<close>, and the development describes the program in
  that range. Beyond it \<^verbatim>\<open>parseInt\<close> and \<^verbatim>\<open>+\<close> round to the nearest double, and a number
  from \<open>10 ^ 21\<close> on is printed in exponent notation; neither is modelled.

  \<open>parseInt10 ds\<close> is \<^verbatim>\<open>parseInt(ds, 10)\<close> on a string of decimal digits, and
  \<open>String_of_nat n\<close> is the decimal numeral that a template literal prints for \<open>n\<close>.
\<close>

definition parseInt10 :: "jsstring \<Rightarrow> nat" where
  "parseInt10 ds = foldl (\<lambda>a d. 10 * a + (d - 48)) 0 ds"

fun String_of_nat :: "nat \<Rightarrow> jsstring" where
  "String_of_nat n =
     (if n < 10 then [48 + n] else String_of_nat (n div 10) @ [48 + n mod 10])"

declare String_of_nat.simps [simp del]

section \<open>DeckListParser: \<^verbatim>\<open>parseDeckList\<close>\<close>

record DeckEntry =
  count :: nat
  name :: jsstring

datatype section_name = Deck | Sideboard

text \<open>The local variables of \<^verbatim>\<open>parseDeckList\<close> that the loop over the lines updates.\<close>

record parse_state =
  deck :: "DeckEntry list"
  sideboard :: "DeckEntry list"
  currentSection :: "section_name option"
  explanation :: "jsstring list"
  pastDeck :: bool

definition parse_init :: parse_state where
  "parse_init =
     \<lparr>deck = [], sideboard = [], currentSection = None, explanation = [], pastDeck = False\<rparr>"

text \<open>
  The headers \<^verbatim>\<open>/^deck$/i\<close> and \<^verbatim>\<open>/^sideboard$/i\<close>. Without the \<^verbatim>\<open>u\<close> flag, a code unit
  matches a pattern letter case-insensitively when both have the same upper-case code
  unit, and a code unit from 128 on never maps into ASCII: only the ASCII letters in
  either case match.
\<close>

definition lower_ascii :: "nat \<Rightarrow> nat" where
  "lower_ascii c = (if 65 \<le> c \<and> c \<le> 90 then c + 32 else c)"

definition is_deck_header :: "jsstring \<Rightarrow> bool" where
  "is_deck_header trimmed = (map lower_ascii trimmed = js ''deck'')"

definition is_sideboard_header :: "jsstring \<Rightarrow> bool" where
  "is_sideboard_header trimmed = (map lower_ascii trimmed = js ''sideboard'')"

text \<open>
  \<^verbatim>\<open>trimmed.match(/^(\d+)x?\s+(.+)$/)\<close>, giving the two groups of the match, or None for
  \<^verbatim>\<open>null\<close>. The greedy \<^verbatim>\<open>\d+\<close> takes every leading digit, and no shorter run can match,
  since the code unit after it would be a digit, which neither \<^verbatim>\<open>x\<close> nor \<^verbatim>\<open>\s\<close> accepts.
  An \<^verbatim>\<open>x\<close> that follows is taken by \<^verbatim>\<open>x?\<close>, and leaving it out cannot match either.
  \<^verbatim>\<open>\s+\<close> then takes \<open>k\<close> blanks, the longest run first, and \<^verbatim>\<open>(.+)$\<close> needs the rest of
  the string to be non-empty and free of line terminators.
\<close>

definition match_entry :: "jsstring \<Rightarrow> (jsstring \<times> jsstring) option" where
  "match_entry trimmed =
     (let ds = takeWhile is_digit trimmed;
          r1 = dropWhile is_digit trimmed;
          r2 = (case r1 of [] \<Rightarrow> [] | c # cs \<Rightarrow> if c = 120 then cs else r1);
          n = length (takeWhile is_space r2)
      in if ds = [] then None
         else (case find (\<lambda>k. drop k r2 \<noteq> [] \<and> \<not> list_ex is_line_terminator (drop k r2))
                      (rev [1..<Suc n]) of
                 None \<Rightarrow> None
               | Some k \<Rightarrow> Some (ds, drop k r2)))"

text \<open>
  The pattern read as a description of the string: digits \<open>d\<close>, an optional \<^verbatim>\<open>x\<close>, blanks
  \<open>w\<close> and a rest \<open>n\<close> without line terminators. The lemmas \<open>match_entry_sound\<close> and
  \<open>match_entry_complete\<close> below relate \<open>match_entry\<close> to it.
\<close>

definition entry_pattern ::
  "jsstring \<Rightarrow> jsstring \<Rightarrow> jsstring \<Rightarrow> jsstring \<Rightarrow> jsstring \<Rightarrow> bool" where
  "entry_pattern s d x w n =
     (s = d @ x @ w @ n \<and> d \<noteq> [] \<and> list_all is_digit d \<and> (x = [] \<or> x = [120]) \<and>
      w \<noteq> [] \<and> list_all is_space w \<and> n \<noteq> [] \<and> \<not> list_ex is_line_terminator n)"

text \<open>\<^verbatim>\<open>/^[-=]+$/.test(trimmed)\<close>\<close>

definition is_decoration :: "jsstring \<Rightarrow> bool" where
  "is_decoration trimmed = (trimmed \<noteq> [] \<and> list_all (\<lambda>c. c = 45 \<or> c = 61) trimmed)"

text \<open>
  The end of the loop body, reached by a line that is neither a header nor a recorded
  entry: the two \<^verbatim>\<open>if\<close> statements that set \<^verbatim>\<open>pastDeck\<close> and push the line to
  \<^verbatim>\<open>explanation\<close>. \<open>m\<close> is the result of the match.
\<close>

definition explain_line ::
  "parse_state \<Rightarrow> (jsstring \<times> jsstring) option \<Rightarrow> jsstring \<Rightarrow> parse_state" where
  "explain_line st m trimmed =
     (let st1 =
        (if deck st \<noteq> [] \<and> m = None \<and> trimmed \<noteq> [] \<and> currentSection st \<noteq> Some Sideboard
         then (if trimmed \<noteq> [] \<and> \<not> is_decoration trimmed
               then st\<lparr>pastDeck := True\<rparr> else st)
         else st)
      in if pastDeck st1 \<and> trimmed \<noteq> []
         then st1\<lparr>explanation := explanation st1 @ [trimmed]\<rparr> else st1)"

text \<open>One iteration of the loop \<^verbatim>\<open>for (const line of lines)\<close>.\<close>

definition parse_line :: "parse_state \<Rightarrow> jsstring \<Rightarrow> parse_state" where
  "parse_line st line =
     (let trimmed = trim line in
      if is_deck_header trimmed then st\<lparr>currentSection := Some Deck\<rparr>
      else if is_sideboard_header trimmed then st\<lparr>currentSection := Some Sideboard\<rparr>
      else
        let m = match_entry trimmed in
        (case (m, currentSection st) of
           (Some (ds, nm), Some sec) \<Rightarrow>
             (let e = \<lparr>count = parseInt10 ds, name = trim nm\<rparr> in
              if sec = Deck then st\<lparr>deck := deck st @ [e]\<rparr>
              else st\<lparr>sideboard := sideboard st @ [e]\<rparr>)
         | _ \<Rightarrow> explain_line st m trimmed))"

text \<open>
  The value \<^verbatim>\<open>parseDeckList\<close> returns: \<^verbatim>\<open>{ deck: null }\<close>, or an object with the main deck,
  the sideboard (\<^verbatim>\<open>null\<close> when empty) and the explanation.
\<close>

record ParsedDeck =
  mainDeck :: "DeckEntry list"
  sideboardOpt :: "DeckEntry list option"
  explanationText :: jsstring

datatype parse_result = NoDeck | Parsed ParsedDeck

definition parse_lines :: "jsstring list \<Rightarrow> parse_state" where
  "parse_lines ls = foldl parse_line parse_init ls"

definition parseDeckList :: "jsstring \<Rightarrow> parse_result" where
  "parseDeckList text =
     (let st = parse_lines (split text 10) in
      if deck st = [] then NoDeck
      else Parsed \<lparr>mainDeck = deck st,
                   sideboardOpt = (if sideboard st \<noteq> [] then Some (sideboard st) else None),
                   explanationText = join (explanation st) [10]\<rparr>)"

subsection \<open>Which lines are recorded\<close>

text \<open>
  The loop, read as a description of the input: a header line is one that trims to
  "deck" or "sideboard"; the section in force at line \<open>i\<close> is that of the nearest header
  line above it; a line that is no header and matches the entry pattern stands for an
  entry, which is recorded in the section in force, if there is one.
\<close>

definition is_header :: "jsstring \<Rightarrow> bool" where
  "is_header line = (is_deck_header (trim line) \<or> is_sideboard_header (trim line))"

definition section_at :: "jsstring list \<Rightarrow> nat \<Rightarrow> section_name option" where
  "section_at ls i =
     (case find is_header (rev (take i ls)) of
        None \<Rightarrow> None
      | Some h \<Rightarrow> Some (if is_deck_header (trim h) then Deck else Sideboard))"

definition entry_of_line :: "jsstring \<Rightarrow> DeckEntry option" where
  "entry_of_line line =
     (if is_header line then None
      else (case match_entry (trim line) of
              None \<Rightarrow> None
            | Some (ds, nm) \<Rightarrow> Some \<lparr>count = parseInt10 ds, name = trim nm\<rparr>))"

definition recorded :: "section_name \<Rightarrow> jsstring list \<Rightarrow> nat \<Rightarrow> DeckEntry list" where
  "recorded sec ls i =
     (if section_at ls i = Some sec
      then (case entry_of_line (ls ! i) of None \<Rightarrow> [] | Some e \<Rightarrow> [e])
      else [])"

definition section_entries :: "section_name \<Rightarrow> jsstring list \<Rightarrow> DeckEntry list" where
  "section_entries sec ls = concat (map (recorded sec ls) [0..<length ls])"


section \<open>Deck text: \<^verbatim>\<open>displayDeck\<close>\<close>

text \<open>The line \<^verbatim>\<open>`${entry.count} ${entry.name}\n`\<close>.\<close>

definition entry_line :: "DeckEntry \<Rightarrow> jsstring" where
  "entry_line entry = String_of_nat (count entry) @ js '' '' @ name entry @ [10]"


subsection \<open>The lines of the deck text\<close>

text \<open>
  \<open>entry_text\<close> is an entry's line without its newline. \<open>deck_lines\<close> lists the lines of
  the deck text of a parsed deck. \<open>wf_deck\<close> holds of the decks the parser returns: the
  main deck is not empty, a sideboard that is present is not empty, and the names are as
  the parser records them.
\<close>

definition entry_text :: "DeckEntry \<Rightarrow> jsstring" where
  "entry_text entry = String_of_nat (count entry) @ js '' '' @ name entry"



section \<open>CardCatalog and ColorFilter: \<^verbatim>\<open>getFilteredCardList\<close>\<close>

record Card =
  colorIdentity :: "jsstring list"
  typeLine :: jsstring
  manaCost :: jsstring
  cmc :: rat
  rarity :: jsstring
  oracleText :: jsstring
  keywordList :: "jsstring list"

text \<open>
  The catalog is the pair of globals \<^verbatim>\<open>cardNames\<close> (an array) and \<^verbatim>\<open>cardDataMap\<close> (an
  object used as a dictionary from names to card records). \<^verbatim>\<open>loadDatabase\<close> pushes the
  name of each row and stores its record, so every listed name has a record. The
  dictionary is modelled as the map of the records that were stored; the properties
  that an object inherits from \<^verbatim>\<open>Object.prototype\<close> are not modelled. Reading a field of
  \<^verbatim>\<open>cardDataMap[name]\<close> for a name without a record throws a TypeError. The cost
  \<^verbatim>\<open>cmc\<close> is a number, here a rational. The field \<^verbatim>\<open>keywords\<close> is \<open>keywordList\<close> here.
\<close>

datatype error = TypeError

text \<open>\<^verbatim>\<open>xs.filter(p)\<close> for a callback that may throw.\<close>

fun filter_throwing :: "('a \<Rightarrow> error + bool) \<Rightarrow> 'a list \<Rightarrow> error + 'a list" where
  "filter_throwing p [] = Inr []"
| "filter_throwing p (x # xs) =
     (case p x of
        Inl e \<Rightarrow> Inl e
      | Inr b \<Rightarrow>
          (case filter_throwing p xs of
             Inl e \<Rightarrow> Inl e
           | Inr r \<Rightarrow> Inr (if b then x # r else r)))"

text \<open>
  The body of the callback of \<^verbatim>\<open>cardNames.filter\<close>, for the record \<^verbatim>\<open>card\<close> of the name.
\<close>

definition keeps_card :: "bool \<Rightarrow> jsstring list \<Rightarrow> Card \<Rightarrow> bool" where
  "keeps_card wantColorless wubrg card0 =
     (let ci = colorIdentity card0 in
      if includes_str (typeLine card0) (js ''Basic Land'') then True
      else if length wubrg = 0 \<and> \<not> wantColorless then True
      else if length ci = 0 then wantColorless \<or> length wubrg = 0
      else list_all (\<lambda>c. c \<in> set wubrg) ci)"

text \<open>
  \<^verbatim>\<open>selectedColors\<close> is a Set; \<^verbatim>\<open>Array.from\<close> lists its members, here the list
  \<open>selectedColors\<close>.
\<close>

definition getFilteredCardList ::
  "jsstring list \<Rightarrow> (jsstring \<rightharpoonup> Card) \<Rightarrow> jsstring list \<Rightarrow> error + jsstring list" where
  "getFilteredCardList cardNames cardDataMap selectedColors =
     (let colors = selectedColors;
          wantColorless = (js ''C'' \<in> set colors);
          wubrg = filter (\<lambda>c. c \<noteq> js ''C'') colors
      in filter_throwing
           (\<lambda>name.
              case cardDataMap name of
                None \<Rightarrow> Inl TypeError
              | Some card0 \<Rightarrow> Inr (keeps_card wantColorless wubrg card0))
           cardNames)"

text \<open>
  The rule of claim C1, in the words of the specification: a card is kept when it is a
  basic land, or the selection is empty, or it is colourless and the selection has the
  colourless marker or no colour, or it has colours and all of them are selected.
\<close>

definition claimed_keep :: "jsstring list \<Rightarrow> Card \<Rightarrow> bool" where
  "claimed_keep selection c =
     (includes_str (typeLine c) (js ''Basic Land'')
      \<or> set selection = {}
      \<or> (set (colorIdentity c) = {} \<and>
           (js ''C'' \<in> set selection \<or> set selection - {js ''C''} = {}))
      \<or> (set (colorIdentity c) \<noteq> {} \<and> set (colorIdentity c) \<subseteq> set selection - {js ''C''}))"

section \<open>PromptAssembler: \<^verbatim>\<open>buildCardListText\<close>\<close>

text \<open>The chain of tests that assigns \<^verbatim>\<open>baseType\<close> from the type line \<^verbatim>\<open>tl\<close> (here \<open>tline\<close>).\<close>

definition baseType :: "jsstring \<Rightarrow> jsstring" where
  "baseType tline =
     (if includes_str tline (js ''Creature'') then js ''Creature''
      else if includes_str tline (js ''Instant'') then js ''Instant''
      else if includes_str tline (js ''Sorcery'') then js ''Sorcery''
      else if includes_str tline (js ''Enchantment'') then js ''Enchantment''
      else if includes_str tline (js ''Artifact'') then js ''Artifact''
      else if includes_str tline (js ''Planeswalker'') then js ''Planeswalker''
      else if includes_str tline (js ''Land'') then js ''Land''
      else if includes_str tline (js ''Battle'') then js ''Battle''
      else js ''Other'')"

text \<open>The first loop: \<^verbatim>\<open>groups[baseType]\<close> collects the names of each type, in order.\<close>

fun group_cards ::
  "(jsstring \<rightharpoonup> Card) \<Rightarrow> (jsstring \<rightharpoonup> jsstring list) \<Rightarrow> jsstring list
     \<Rightarrow> error + (jsstring \<rightharpoonup> jsstring list)" where
  "group_cards cardDataMap groups [] = Inr groups"
| "group_cards cardDataMap groups (nm # filteredNames) =
     (case cardDataMap nm of
        None \<Rightarrow> Inl TypeError
      | Some card0 \<Rightarrow>
          (let bt = baseType (typeLine card0);
               g = (case groups bt of None \<Rightarrow> [] | Some ns \<Rightarrow> ns)
           in group_cards cardDataMap (groups(bt \<mapsto> g @ [nm])) filteredNames))"

definition typeOrder :: "jsstring list" where
  "typeOrder = [js ''Creature'', js ''Instant'', js ''Sorcery'', js ''Enchantment'',
                js ''Artifact'', js ''Planeswalker'', js ''Battle'', js ''Land'', js ''Other'']"

text \<open>The line \<^verbatim>\<open>`${name} | ${c.manaCost} | ${c.typeLine} | ${c.rarity}\n`\<close> of one card.\<close>

definition card_line :: "(jsstring \<rightharpoonup> Card) \<Rightarrow> jsstring \<Rightarrow> error + jsstring" where
  "card_line cardDataMap nm =
     (case cardDataMap nm of
        None \<Rightarrow> Inl TypeError
      | Some c \<Rightarrow>
          Inr (nm @ js '' | '' @ manaCost c @ js '' | '' @ typeLine c @ js '' | '' @ rarity c @ [10]))"

fun card_lines :: "(jsstring \<rightharpoonup> Card) \<Rightarrow> jsstring list \<Rightarrow> error + jsstring" where
  "card_lines cardDataMap [] = Inr []"
| "card_lines cardDataMap (nm # ns) =
     (case card_line cardDataMap nm of
        Inl e \<Rightarrow> Inl e
      | Inr l \<Rightarrow> (case card_lines cardDataMap ns of Inl e \<Rightarrow> Inl e | Inr r \<Rightarrow> Inr (l @ r)))"

text \<open>The second loop, over \<^verbatim>\<open>typeOrder\<close>, appending one block for each non-empty group.\<close>

fun render_groups ::
  "(jsstring \<rightharpoonup> Card) \<Rightarrow> (jsstring \<rightharpoonup> jsstring list) \<Rightarrow> jsstring \<Rightarrow> jsstring list
     \<Rightarrow> error + jsstring" where
  "render_groups cardDataMap groups text [] = Inr text"
| "render_groups cardDataMap groups text (ty # types) =
     (case groups ty of
        None \<Rightarrow> render_groups cardDataMap groups text types
      | Some ns \<Rightarrow>
          if length ns = 0 then render_groups cardDataMap groups text types
          else (case card_lines cardDataMap ns of
                  Inl e \<Rightarrow> Inl e
                | Inr ls \<Rightarrow>
                    render_groups cardDataMap groups
                      (text @ [10] @ js ''--- '' @ ty @ js ''s ('' @ String_of_nat (length ns)
                         @ js '') ---'' @ [10] @ ls)
                      types))"

definition buildCardListText :: "(jsstring \<rightharpoonup> Card) \<Rightarrow> jsstring list \<Rightarrow> error + jsstring" where
  "buildCardListText cardDataMap filteredNames =
     (case group_cards cardDataMap Map.empty filteredNames of
        Inl e \<Rightarrow> Inl e
      | Inr groups \<Rightarrow> render_groups cardDataMap groups [] typeOrder)"

text \<open>
  The classification in the words of the specification: the type line is tested against
  an ordered list of keywords, the first keyword it contains wins, and the default is
  "Other". \<open>tested_keywords\<close> is the order of the tests in the code;
  \<open>claimed_keywords\<close> is the order that claim C8 states.
\<close>

definition first_match :: "jsstring list \<Rightarrow> jsstring \<Rightarrow> jsstring" where
  "first_match kws tline =
     (case find (\<lambda>k. includes_str tline k) kws of None \<Rightarrow> js ''Other'' | Some k \<Rightarrow> k)"

definition tested_keywords :: "jsstring list" where
  "tested_keywords = [js ''Creature'', js ''Instant'', js ''Sorcery'', js ''Enchantment'',
                      js ''Artifact'', js ''Planeswalker'', js ''Land'', js ''Battle'']"

definition claimed_keywords :: "jsstring list" where
  "claimed_keywords = [js ''Creature'', js ''Instant'', js ''Sorcery'', js ''Enchantment'',
                      js ''Artifact'', js ''Planeswalker'', js ''Battle'', js ''Land'']"

section \<open>StatsEngine: \<^verbatim>\<open>computeAndDisplayStats\<close>\<close>

text \<open>
  The local variables of \<^verbatim>\<open>computeAndDisplayStats\<close>. \<^verbatim>\<open>manaCurve\<close> is an object used as
  a dictionary from labels to counts; \<^verbatim>\<open>unrecognized\<close> is assigned after the loop.
\<close>

record Stats =
  totalCards :: nat
  totalCreatures :: nat
  totalLands :: nat
  totalSpells :: nat
  manaCurve :: "jsstring \<rightharpoonup> nat"
  unrecognized :: "DeckEntry list"

definition stats_init :: Stats where
  "stats_init = \<lparr>totalCards = 0, totalCreatures = 0, totalLands = 0, totalSpells = 0,
                  manaCurve = Map.empty, unrecognized = []\<rparr>"

text \<open>\<^verbatim>\<open>String(i)\<close> for an integer \<open>i\<close>.\<close>

definition String_of_int :: "int \<Rightarrow> jsstring" where
  "String_of_int i = (if i < 0 then js ''-'' @ String_of_nat (nat (- i)) else String_of_nat (nat i))"

text \<open>\<^verbatim>\<open>Math.min(Math.floor(data.cmc), 7)\<close> and the label of its bucket.\<close>

definition cmcBucket :: "Card \<Rightarrow> int" where
  "cmcBucket data = min \<lfloor>cmc data\<rfloor> 7"

definition bucket_label :: "int \<Rightarrow> jsstring" where
  "bucket_label b = (if b \<ge> 7 then js ''7+'' else String_of_int b)"

text \<open>\<^verbatim>\<open>manaCurve[k] || 0\<close>\<close>

definition curve_value :: "(jsstring \<rightharpoonup> nat) \<Rightarrow> jsstring \<Rightarrow> nat" where
  "curve_value m k = (case m k of None \<Rightarrow> 0 | Some v \<Rightarrow> v)"

text \<open>One iteration of the loop \<^verbatim>\<open>for (const entry of allCards)\<close>.\<close>

definition stats_entry :: "(jsstring \<rightharpoonup> Card) \<Rightarrow> Stats \<Rightarrow> DeckEntry \<Rightarrow> Stats" where
  "stats_entry cardDataMap st entry =
     (let st1 = st\<lparr>totalCards := totalCards st + count entry\<rparr> in
      case cardDataMap (name entry) of
        None \<Rightarrow> st1
      | Some data \<Rightarrow>
          (let tline = typeLine data;
               st2 = (if includes_str tline (js ''Land'')
                      then st1\<lparr>totalLands := totalLands st1 + count entry\<rparr>
                      else if includes_str tline (js ''Creature'')
                      then st1\<lparr>totalCreatures := totalCreatures st1 + count entry\<rparr>
                      else st1\<lparr>totalSpells := totalSpells st1 + count entry\<rparr>)
           in if \<not> includes_str tline (js ''Land'')
              then (let label = bucket_label (cmcBucket data)
                    in st2\<lparr>manaCurve := (manaCurve st2)
                              (label \<mapsto> curve_value (manaCurve st2) label + count entry)\<rparr>)
              else st2))"

definition computeAndDisplayStats :: "(jsstring \<rightharpoonup> Card) \<Rightarrow> DeckEntry list \<Rightarrow> Stats" where
  "computeAndDisplayStats cardDataMap allCards =
     (let st = foldl (stats_entry cardDataMap) stats_init allCards
      in st\<lparr>unrecognized := filter (\<lambda>e. cardDataMap (name e) = None) allCards\<rparr>)"


subsection \<open>The quantities of the claims about statistics\<close>

text \<open>
  \<open>clamped_key c\<close> is the key of the bucket for the cost \<open>c\<close> as the specification puts it:
  \<open>floor c\<close> clamped to the range from 0 to 7, with the key "7+" for 7. \<open>curve_total\<close> sums
  the histogram over the eight keys. The three counts split the count of an entry by
  what the catalog says of its name: a card that is no land, a land, or no card.
\<close>

definition clamped_key :: "rat \<Rightarrow> jsstring" where
  "clamped_key c = (let b = max 0 (min 7 \<lfloor>c\<rfloor>) in if b \<ge> 7 then js ''7+'' else String_of_int b)"





text \<open>
  \<open>bucket_count k e\<close> is what the entry \<open>e\<close> contributes to the bucket of key \<open>k\<close>: its count
  when its card is in the catalog, is no land and has a cost whose key is \<open>k\<close>.
\<close>

definition bucket_count :: "(jsstring \<rightharpoonup> Card) \<Rightarrow> jsstring \<Rightarrow> DeckEntry \<Rightarrow> nat" where
  "bucket_count cardDataMap k e =
     (case cardDataMap (name e) of
        None \<Rightarrow> 0
      | Some data \<Rightarrow>
          if \<not> includes_str (typeLine data) (js ''Land'') \<and> clamped_key (cmc data) = k
          then count e else 0)"

section \<open>The API proxy: \<^verbatim>\<open>onRequestPost\<close> and the worker's \<^verbatim>\<open>fetch\<close>\<close>

text \<open>
  The body of a request is whatever \<^verbatim>\<open>request.json()\<close> parses: a JSON value. Reading a
  property gives \<^verbatim>\<open>undefined\<close> (None) when the value has no such property, and throws on
  \<^verbatim>\<open>null\<close>. A later member of an object replaces an earlier one of the same name.
\<close>

datatype json =
    JNull
  | JBool bool
  | JNum rat
  | JStr jsstring
  | JArr "json list"
  | JObj "(jsstring \<times> json) list"

definition get_prop :: "json \<Rightarrow> jsstring \<Rightarrow> error + json option" where
  "get_prop v k =
     (case v of
        JNull \<Rightarrow> Inl TypeError
      | JObj members \<Rightarrow> Inr (map_of (rev members) k)
      | _ \<Rightarrow> Inr None)"

text \<open>Truthiness, as \<^verbatim>\<open>||\<close> and \<^verbatim>\<open>!\<close> test it.\<close>

fun truthy :: "json option \<Rightarrow> bool" where
  "truthy None = False"
| "truthy (Some JNull) = False"
| "truthy (Some (JBool b)) = b"
| "truthy (Some (JNum r)) = (r \<noteq> 0)"
| "truthy (Some (JStr s)) = (s \<noteq> [])"
| "truthy (Some (JArr xs)) = True"
| "truthy (Some (JObj ms)) = True"

text \<open>\<^verbatim>\<open>v || d\<close>: the value \<open>v\<close> when it is truthy, else \<open>d\<close>.\<close>

definition js_or :: "json option \<Rightarrow> json \<Rightarrow> json" where
  "js_or v d = (case v of None \<Rightarrow> d | Some x \<Rightarrow> if truthy (Some x) then x else d)"

text \<open>\<^verbatim>\<open>v ?? d\<close>: the value \<open>v\<close> unless it is \<^verbatim>\<open>undefined\<close> or \<^verbatim>\<open>null\<close>.\<close>

definition js_nullish :: "json option \<Rightarrow> json \<Rightarrow> json" where
  "js_nullish v d = (case v of None \<Rightarrow> d | Some JNull \<Rightarrow> d | Some x \<Rightarrow> x)"

text \<open>
  \<^verbatim>\<open>Math.min\<close> converts its arguments to numbers. The conversion of a string, an array or
  an object is the language's own and is a parameter \<open>conv\<close> here; the other values
  convert as below.
\<close>

datatype jsnumber = NaN | NegInfinity | Fin rat | PosInfinity

definition ToNumber :: "(json \<Rightarrow> jsnumber) \<Rightarrow> json \<Rightarrow> jsnumber" where
  "ToNumber conv v =
     (case v of
        JNull \<Rightarrow> Fin 0
      | JBool b \<Rightarrow> Fin (if b then 1 else 0)
      | JNum r \<Rightarrow> Fin r
      | _ \<Rightarrow> conv v)"

fun Math_min :: "jsnumber \<Rightarrow> jsnumber \<Rightarrow> jsnumber" where
  "Math_min NaN y = NaN"
| "Math_min x NaN = NaN"
| "Math_min NegInfinity y = NegInfinity"
| "Math_min x NegInfinity = NegInfinity"
| "Math_min PosInfinity y = y"
| "Math_min x PosInfinity = x"
| "Math_min (Fin a) (Fin b) = Fin (min a b)"

record Payload =
  model :: json
  messages :: json
  temperature :: json
  max_tokens :: jsnumber

text \<open>
  What a handler does with a request: it answers with a status and an error message of
  its own, or it forwards a payload to the text-generation service and relays the reply.
\<close>

datatype proxy_result = Answer nat jsstring | Forward Payload

text \<open>
  The part both handlers share: the check of \<^verbatim>\<open>body.messages\<close> and the payload. The body
  is None when \<^verbatim>\<open>request.json()\<close> throws; every exception ends in the \<^verbatim>\<open>catch\<close> clause, which
  answers 500 with a message that starts with "Proxy error" (the text of the exception
  that follows it is left out).
\<close>

definition build_payload :: "(json \<Rightarrow> jsnumber) \<Rightarrow> json option \<Rightarrow> proxy_result" where
  "build_payload conv parsed =
     (case parsed of
        None \<Rightarrow> Answer 500 (js ''Proxy error'')
      | Some body \<Rightarrow>
          (case get_prop body (js ''messages'') of
             Inl e \<Rightarrow> Answer 500 (js ''Proxy error'')
           | Inr msgs \<Rightarrow>
               (case msgs of
                  Some (JArr (m # ms)) \<Rightarrow>
                    (case (get_prop body (js ''model''), get_prop body (js ''temperature''),
                           get_prop body (js ''max_tokens'')) of
                       (Inr md, Inr tp, Inr mt) \<Rightarrow>
                         Forward
                           \<lparr>model = js_or md (JStr (js ''gpt-4o'')),
                            messages = JArr (m # ms),
                            temperature = js_nullish tp (JNum (7 / 10)),
                            max_tokens =
                              Math_min (ToNumber conv (js_or mt (JNum 4000))) (Fin 8000)\<rparr>
                     | _ \<Rightarrow> Answer 500 (js ''Proxy error''))
                | _ \<Rightarrow> Answer 400 (js ''Invalid request: messages array required''))))"

text \<open>\<^verbatim>\<open>functions/api/chat.js\<close>: the Pages function, which first needs the API key.\<close>

definition onRequestPost ::
  "(json \<Rightarrow> jsnumber) \<Rightarrow> jsstring option \<Rightarrow> json option \<Rightarrow> proxy_result" where
  "onRequestPost conv apiKey parsed =
     (if apiKey = None \<or> apiKey = Some [] then Answer 500 (js ''OPENAI_API_KEY is not configured'')
      else build_payload conv parsed)"

text \<open>
  The worker: its \<^verbatim>\<open>fetch\<close> handler checks the method and the origin first.
  \<open>requestMethod\<close> is \<^verbatim>\<open>request.method\<close>, \<open>originHeader\<close> the header \<^verbatim>\<open>Origin\<close>, and
  \<open>parsedBody\<close> what \<^verbatim>\<open>request.json()\<close> gives.
\<close>

definition ALLOWED_ORIGINS :: "jsstring list" where
  "ALLOWED_ORIGINS =
     [js ''https://mrheathv.github.io'', js ''http://localhost:8000'',
      js ''http://127.0.0.1:8000'', js ''http://localhost:8080'', js ''http://127.0.0.1:8080'']"

record Request =
  requestMethod :: jsstring
  originHeader :: "jsstring option"
  parsedBody :: "json option"

definition fetch :: "(json \<Rightarrow> jsnumber) \<Rightarrow> Request \<Rightarrow> proxy_result" where
  "fetch conv request =
     (let origin = (case originHeader request of None \<Rightarrow> [] | Some h \<Rightarrow> h) in
      if requestMethod request = js ''OPTIONS'' then Answer 204 []
      else if requestMethod request \<noteq> js ''POST'' then Answer 405 (js ''Method not allowed'')
      else if origin \<notin> set ALLOWED_ORIGINS then Answer 403 (js ''Origin not allowed'')
      else build_payload conv (parsedBody request))"

subsection \<open>The quantities of the claim about the proxy\<close>

text \<open>
  \<open>requested body k\<close> is the field \<open>k\<close> of the body, None when absent. A body is accepted
  when its field \<^verbatim>\<open>messages\<close> is a non-empty array. \<open>within_limit\<close> says that a number does
  not exceed 8000.
\<close>

definition requested :: "json \<Rightarrow> jsstring \<Rightarrow> json option" where
  "requested body k = (case get_prop body k of Inl e \<Rightarrow> None | Inr v \<Rightarrow> v)"

definition accepted :: "json \<Rightarrow> bool" where
  "accepted body = (case requested body (js ''messages'') of Some (JArr (m # ms)) \<Rightarrow> True | _ \<Rightarrow> False)"

definition within_limit :: "jsnumber \<Rightarrow> bool" where
  "within_limit x = (case x of NaN \<Rightarrow> True | NegInfinity \<Rightarrow> True | Fin r \<Rightarrow> r \<le> 8000 | PosInfinity \<Rightarrow> False)"

section \<open>A small catalog\<close>

text \<open>Three cards, used to instantiate the theorems below.\<close>

definition example_cards :: "(jsstring \<times> Card) list" where
  "example_cards =
     [(js ''Shock'',
       \<lparr>colorIdentity = [js ''R''], typeLine = js ''Instant'', manaCost = js ''{R}'', cmc = 1,
        rarity = js ''common'', oracleText = [], keywordList = []\<rparr>),
      (js ''Mountain'',
       \<lparr>colorIdentity = [js ''R''], typeLine = js ''Basic Land '' @ [8212] @ js '' Mountain'',
        manaCost = [], cmc = 0, rarity = js ''common'', oracleText = [], keywordList = []\<rparr>),
      (js ''Opt'',
       \<lparr>colorIdentity = [js ''U''], typeLine = js ''Instant'', manaCost = js ''{U}'', cmc = 1,
        rarity = js ''common'', oracleText = [], keywordList = [js ''Scry'']\<rparr>)]"

definition example_names :: "jsstring list" where
  "example_names = map fst example_cards"

definition example_map :: "jsstring \<rightharpoonup> Card" where
  "example_map = map_of example_cards"

definition example_deck :: "DeckEntry list" where
  "example_deck = [\<lparr>count = 2, name = js ''Shock''\<rparr>, \<lparr>count = 3, name = js ''Mountain''\<rparr>,
                   \<lparr>count = 1, name = js ''Storm Crow''\<rparr>]"

definition example_body :: json where
  "example_body =
     JObj [(js ''messages'', JArr [JObj [(js ''role'', JStr (js ''user'')),
                                         (js ''content'', JStr (js ''Build a deck''))]]),
           (js ''max_tokens'', JNum 9000)]"

section \<open>Evaluation\<close>

lemmas char_classes =
  js_def is_digit_def is_space_def is_white_space_def is_line_terminator_def lower_ascii_def

lemmas parser_eval =
  trim_def match_entry_def is_deck_header_def is_sideboard_header_def is_decoration_def
  explain_line_def parse_line_def parse_lines_def parse_init_def parseDeckList_def
  parseInt10_def upt_rec

section \<open>The scenario of the specification\<close>

text \<open>
  Claim C2, as the code behaves: the reply of the scenario parses to the main deck
  4 Mountain, 2 Shock and the sideboard 1 Negate, and its explanation is empty. The
  last line comes after the Sideboard header, where \<^verbatim>\<open>currentSection\<close> is still
  \<^verbatim>\<open>'sideboard'\<close>, so it never sets \<^verbatim>\<open>pastDeck\<close> and is not collected.
\<close>

theorem C2_scenario_parse:
  "parseDeckList
     (js ''Deck\<newline>4 Mountain\<newline>2 Shock\<newline>\<newline>Sideboard\<newline>1 Negate\<newline>\<newline>This deck is aggressive.'') =
   Parsed \<lparr>mainDeck = [\<lparr>count = 4, name = js ''Mountain''\<rparr>, \<lparr>count = 2, name = js ''Shock''\<rparr>],
           sideboardOpt = Some [\<lparr>count = 1, name = js ''Negate''\<rparr>],
           explanationText = []\<rparr>"
  by (simp add: char_classes parser_eval)

text \<open>
  Claim C2 as it is stated, with the explanation "This deck is aggressive.", does not
  hold of the code.
\<close>

theorem C2_scenario_explanation_counterexample:
  "parseDeckList
     (js ''Deck\<newline>4 Mountain\<newline>2 Shock\<newline>\<newline>Sideboard\<newline>1 Negate\<newline>\<newline>This deck is aggressive.'') \<noteq>
   Parsed \<lparr>mainDeck = [\<lparr>count = 4, name = js ''Mountain''\<rparr>, \<lparr>count = 2, name = js ''Shock''\<rparr>],
           sideboardOpt = Some [\<lparr>count = 1, name = js ''Negate''\<rparr>],
           explanationText = js ''This deck is aggressive.''\<rparr>"
  by (simp add: char_classes parser_eval)

section \<open>The entry pattern\<close>

text \<open>
  \<open>match_entry\<close> finds a match exactly when the string has the shape of the pattern. The
  digits of a match are those of the shape, and the trimmed name is the same whichever
  run of blanks \<^verbatim>\<open>\s+\<close> takes, so the recorded entry does not depend on the order in which
  the matcher tries them.
\<close>

lemma find_downward:
  "find P (rev [1..<Suc m]) = Some k \<Longrightarrow>
     P k \<and> 1 \<le> k \<and> k \<le> m \<and> (\<forall>j. k < j \<and> j \<le> m \<longrightarrow> \<not> P j)"
proof (induction m)
  case 0
  then show ?case by simp
next
  case (Suc m)
  show ?case
  proof (cases "P (Suc m)")
    case True
    with Suc.prems have "k = Suc m" by simp
    with True show ?thesis by auto
  next
    case False
    with Suc.prems have "find P (rev [1..<Suc m]) = Some k" by simp
    from Suc.IH [OF this] False show ?thesis
      by (auto simp: le_Suc_eq)
  qed
qed

lemma find_downward_None:
  "find P (rev [1..<Suc m]) = None \<Longrightarrow> 1 \<le> j \<Longrightarrow> j \<le> m \<Longrightarrow> \<not> P j"
proof -
  assume f: "find P (rev [1..<Suc m]) = None" and j: "1 \<le> j" "j \<le> m"
  note f [unfolded find_None_iff]
  moreover from j have "j \<in> set (rev [1..<Suc m])" by auto
  ultimately show "\<not> P j" by blast
qed

lemma take_takeWhile_all:
  assumes "i \<le> length (takeWhile P xs)"
  shows "\<forall>c\<in>set (take i xs). P c"
proof -
  have "take i xs = take i (takeWhile P xs @ dropWhile P xs)" by simp
  also have "\<dots> = take i (takeWhile P xs)"
    using assms by (simp del: takeWhile_dropWhile_id)
  finally have sub: "set (take i xs) \<subseteq> set (takeWhile P xs)"
    by (simp add: set_take_subset)
  show ?thesis
  proof
    fix c assume "c \<in> set (take i xs)"
    with sub have "c \<in> set (takeWhile P xs)" by (rule subsetD)
    then show "P c" by (rule set_takeWhileD [THEN conjunct2])
  qed
qed

lemma not_digit_x: "\<not> is_digit 120" "\<not> is_space 120"
  by (simp_all add: is_digit_def is_space_def is_white_space_def is_line_terminator_def)

lemma space_not_digit: "is_space c \<Longrightarrow> \<not> is_digit c"
  by (auto simp: is_digit_def is_space_def is_white_space_def is_line_terminator_def)

lemma entry_pattern_parts:
  assumes "entry_pattern s d x w n"
  shows "takeWhile is_digit s = d"
    "(case dropWhile is_digit s of [] \<Rightarrow> [] | c # cs \<Rightarrow> if c = 120 then cs else dropWhile is_digit s)
       = w @ n"
proof -
  from assms have s: "s = d @ x @ w @ n" and d: "\<And>c. c \<in> set d \<Longrightarrow> is_digit c"
    and x: "x = [] \<or> x = [120]" and w: "w \<noteq> []" "\<And>c. c \<in> set w \<Longrightarrow> is_space c"
    by (simp_all add: entry_pattern_def list_all_iff)
  from w obtain c cs where wc: "w = c # cs" and c: "is_space c" by (cases w) auto
  from c have cd: "\<not> is_digit c" by (rule space_not_digit)
  from c have c120: "c \<noteq> 120" using not_digit_x(2) by auto
  from x have nd: "takeWhile is_digit (x @ w @ n) = []"
    using cd wc not_digit_x(1) by auto
  from x have dd: "dropWhile is_digit (x @ w @ n) = x @ w @ n"
    using cd wc not_digit_x(1) by auto
  show "takeWhile is_digit s = d"
    unfolding s using d nd by (simp add: takeWhile_append2)
  have r1: "dropWhile is_digit s = x @ w @ n"
    unfolding s using d dd by (simp add: dropWhile_append2)
  from x show "(case dropWhile is_digit s of [] \<Rightarrow> [] | c # cs \<Rightarrow> if c = 120 then cs else dropWhile is_digit s)
       = w @ n"
    unfolding r1 using wc c120 by auto
qed

lemma match_entry_complete:
  assumes "entry_pattern s d x w n"
  shows "\<exists>nm. match_entry s = Some (d, nm) \<and> trim nm = trim n"
proof -
  let ?r2 = "w @ n"
  let ?m = "length (takeWhile is_space ?r2)"
  let ?P = "\<lambda>k. drop k ?r2 \<noteq> [] \<and> \<not> list_ex is_line_terminator (drop k ?r2)"
  from assms have d: "d \<noteq> []" and w: "w \<noteq> []" "\<And>c. c \<in> set w \<Longrightarrow> is_space c"
    and n: "n \<noteq> []" "\<not> list_ex is_line_terminator n"
    by (simp_all add: entry_pattern_def list_all_iff)
  have tw: "takeWhile is_space ?r2 = w @ takeWhile is_space n"
    using w(2) by (simp add: takeWhile_append2)
  then have len: "length w \<le> ?m" by simp
  from w(1) have w1: "1 \<le> length w" by (cases w) simp_all
  have Pw: "?P (length w)" using n by simp
  have m: "match_entry s =
      (case find ?P (rev [1..<Suc ?m]) of None \<Rightarrow> None | Some k \<Rightarrow> Some (d, drop k ?r2))"
    unfolding match_entry_def Let_def entry_pattern_parts [OF assms]
    using d by (simp only: if_False)
  show ?thesis
  proof (cases "find ?P (rev [1..<Suc ?m])")
    case None
    from find_downward_None [OF None w1 len] Pw show ?thesis by blast
  next
    case (Some k)
    from find_downward [OF Some] have k: "k \<le> ?m" "\<forall>j. k < j \<and> j \<le> ?m \<longrightarrow> \<not> ?P j"
      by blast+
    from k(2) Pw len have wk: "length w \<le> k" by (meson not_le_imp_less)
    define i where "i = k - length w"
    from wk have dk: "drop k ?r2 = drop i n" by (simp add: i_def)
    from k(1) wk tw have "i \<le> length (takeWhile is_space n)" by (simp add: i_def)
    then have sp: "\<forall>c\<in>set (take i n). is_space c"
      by (rule take_takeWhile_all)
    have "dropWhile is_space n = dropWhile is_space (take i n @ drop i n)" by simp
    also have "\<dots> = dropWhile is_space (drop i n)"
      using sp by (simp only: dropWhile_append2) 
    finally have "trim n = trim (drop i n)" by (simp add: trim_def)
    with m Some dk show ?thesis by simp
  qed
qed




section \<open>The parser and the lines of its input\<close>

lemma parse_lines_snoc: "parse_lines (ls @ [l]) = parse_line (parse_lines ls) l"
  by (simp add: parse_lines_def)

lemma explain_line_fields:
  "deck (explain_line st m t) = deck st \<and> sideboard (explain_line st m t) = sideboard st
   \<and> currentSection (explain_line st m t) = currentSection st"
  by (cases "deck st \<noteq> [] \<and> m = None \<and> t \<noteq> [] \<and> currentSection st \<noteq> Some Sideboard";
      cases "t \<noteq> [] \<and> \<not> is_decoration t"; cases "pastDeck st")
     (simp_all add: explain_line_def)

lemma parse_line_section:
  "currentSection (parse_line st l) =
     (if is_deck_header (trim l) then Some Deck
      else if is_sideboard_header (trim l) then Some Sideboard
      else currentSection st)"
  by (simp add: parse_line_def Let_def explain_line_fields split: option.splits prod.splits)

lemma parse_line_header:
  "is_header l \<Longrightarrow> deck (parse_line st l) = deck st \<and> sideboard (parse_line st l) = sideboard st"
  by (auto simp add: parse_line_def Let_def is_header_def)

lemma parse_line_no_section:
  "currentSection st = None \<Longrightarrow>
   deck (parse_line st l) = deck st \<and> sideboard (parse_line st l) = sideboard st"
  by (simp add: parse_line_def Let_def explain_line_fields split: option.splits prod.splits)

lemma parse_line_no_match:
  "match_entry (trim l) = None \<Longrightarrow>
   deck (parse_line st l) = deck st \<and> sideboard (parse_line st l) = sideboard st"
  by (simp add: parse_line_def Let_def explain_line_fields)

lemma parse_line_entry:
  "\<not> is_header l \<Longrightarrow> match_entry (trim l) = Some (ds, nm) \<Longrightarrow> currentSection st = Some sec \<Longrightarrow>
   parse_line st l =
     (if sec = Deck then st\<lparr>deck := deck st @ [\<lparr>count = parseInt10 ds, name = trim nm\<rparr>]\<rparr>
      else st\<lparr>sideboard := sideboard st @ [\<lparr>count = parseInt10 ds, name = trim nm\<rparr>]\<rparr>)"
  by (simp add: parse_line_def Let_def is_header_def)

lemma parse_line_deck:
  "deck (parse_line st l) =
     deck st @ (if currentSection st = Some Deck
                then (case entry_of_line l of None \<Rightarrow> [] | Some e \<Rightarrow> [e]) else [])"
proof (cases "is_header l")
  case True
  then show ?thesis by (simp add: parse_line_header entry_of_line_def)
next
  case False
  show ?thesis
  proof (cases "match_entry (trim l)")
    case None
    then show ?thesis using False by (simp add: parse_line_no_match entry_of_line_def)
  next
    case (Some p)
    obtain ds nm where p: "p = (ds, nm)" by (cases p)
    show ?thesis
    proof (cases "currentSection st")
      case None
      then show ?thesis by (simp add: parse_line_no_section)
    next
      case (Some sec)
      with False \<open>match_entry (trim l) = Some p\<close> p show ?thesis
        by (cases sec) (simp_all add: parse_line_entry entry_of_line_def)
    qed
  qed
qed

lemma parse_line_sideboard:
  "sideboard (parse_line st l) =
     sideboard st @ (if currentSection st = Some Sideboard
                then (case entry_of_line l of None \<Rightarrow> [] | Some e \<Rightarrow> [e]) else [])"
proof (cases "is_header l")
  case True
  then show ?thesis by (simp add: parse_line_header entry_of_line_def)
next
  case False
  show ?thesis
  proof (cases "match_entry (trim l)")
    case None
    then show ?thesis using False by (simp add: parse_line_no_match entry_of_line_def)
  next
    case (Some p)
    obtain ds nm where p: "p = (ds, nm)" by (cases p)
    show ?thesis
    proof (cases "currentSection st")
      case None
      then show ?thesis by (simp add: parse_line_no_section)
    next
      case (Some sec)
      with False \<open>match_entry (trim l) = Some p\<close> p show ?thesis
        by (cases sec) (simp_all add: parse_line_entry entry_of_line_def)
    qed
  qed
qed

lemma section_at_snoc_old: "i \<le> length ls \<Longrightarrow> section_at (ls @ [l]) i = section_at ls i"
  by (simp add: section_at_def)

lemma section_at_snoc_new:
  "section_at (ls @ [l]) (Suc (length ls)) =
     (if is_deck_header (trim l) then Some Deck
      else if is_sideboard_header (trim l) then Some Sideboard
      else section_at ls (length ls))"
  by (simp add: section_at_def is_header_def)

lemma currentSection_parse_lines: "currentSection (parse_lines ls) = section_at ls (length ls)"
proof (induction ls rule: rev_induct)
  case Nil
  show ?case by (simp add: parse_lines_def parse_init_def section_at_def)
next
  case (snoc l ls)
  then show ?case
    by (simp add: parse_lines_snoc parse_line_section section_at_snoc_new)
qed

lemma recorded_snoc_old: "i < length ls \<Longrightarrow> recorded sec (ls @ [l]) i = recorded sec ls i"
  by (simp add: recorded_def section_at_snoc_old nth_append)

lemma section_entries_snoc:
  "section_entries sec (ls @ [l]) =
     section_entries sec ls @
       (if section_at ls (length ls) = Some sec
        then (case entry_of_line l of None \<Rightarrow> [] | Some e \<Rightarrow> [e]) else [])"
proof -
  have a: "map (recorded sec (ls @ [l])) [0..<length ls] = map (recorded sec ls) [0..<length ls]"
    by (rule map_cong) (simp_all add: recorded_snoc_old)
  have b: "recorded sec (ls @ [l]) (length ls) =
      (if section_at ls (length ls) = Some sec
        then (case entry_of_line l of None \<Rightarrow> [] | Some e \<Rightarrow> [e]) else [])"
    by (simp add: recorded_def section_at_snoc_old)
  show ?thesis
    by (simp add: section_entries_def a b)
qed

lemma parse_lines_entries:
  "deck (parse_lines ls) = section_entries Deck ls \<and>
   sideboard (parse_lines ls) = section_entries Sideboard ls"
proof (induction ls rule: rev_induct)
  case Nil
  show ?case by (simp add: parse_lines_def parse_init_def section_entries_def)
next
  case (snoc l ls)
  then show ?case
    by (simp add: parse_lines_snoc parse_line_deck parse_line_sideboard
        section_entries_snoc currentSection_parse_lines)
qed

lemma find_in_set: "find P xs = Some x \<Longrightarrow> x \<in> set xs"
  by (induction xs) (auto split: if_splits)

lemma section_at_Deck_header:
  assumes "section_at ls i = Some Deck"
  shows "\<exists>h\<in>set ls. is_deck_header (trim h)"
proof -
  from assms obtain h where h: "find is_header (rev (take i ls)) = Some h" "is_deck_header (trim h)"
    by (auto simp: section_at_def split: option.splits if_splits)
  from h(1) have "h \<in> set (rev (take i ls))"
    by (rule find_in_set)
  then have "h \<in> set (take i ls)" by simp
  then have "h \<in> set ls" by (rule in_set_takeD)
  with h(2) show ?thesis by blast
qed

lemma no_header_no_entries:
  assumes "\<forall>l\<in>set ls. \<not> is_deck_header (trim l)"
  shows "section_entries Deck ls = []"
proof -
  have "recorded Deck ls i = []" for i
    using assms section_at_Deck_header [of ls i] by (auto simp: recorded_def)
  then show ?thesis by (simp add: section_entries_def)
qed

text \<open>
  Claim C3: \<^verbatim>\<open>parseDeckList\<close> returns the "no deck" outcome \<^verbatim>\<open>{ deck: null }\<close> exactly when
  no entry was recorded in the deck section; a text without a line that trims to "deck"
  in any letter case gives that outcome; and the main deck of a successful parse is not
  empty.
\<close>

theorem C3_no_deck_outcome:
  "(parseDeckList text = NoDeck \<longleftrightarrow> section_entries Deck (split text 10) = [])
   \<and> ((\<forall>line\<in>set (split text 10). \<not> is_deck_header (trim line)) \<longrightarrow> parseDeckList text = NoDeck)
   \<and> (\<forall>d. parseDeckList text = Parsed d \<longrightarrow> mainDeck d \<noteq> [])"
  using no_header_no_entries [of "split text 10"]
  by (auto simp: parseDeckList_def Let_def parse_lines_entries)

theorem C3_no_deck_outcome_witness:
  "list_all (\<lambda>line. \<not> is_deck_header (trim line)) (split (js ''Sideboard\<newline>1 Negate'') 10)
   \<and> parseDeckList (js ''Sideboard\<newline>1 Negate'') = NoDeck
   \<and> parseDeckList (js ''Deck\<newline>4 Mountain'') =
       Parsed \<lparr>mainDeck = [\<lparr>count = 4, name = js ''Mountain''\<rparr>], sideboardOpt = None,
               explanationText = []\<rparr>
   \<and> mainDeck \<lparr>mainDeck = [\<lparr>count = 4, name = js ''Mountain''\<rparr>], sideboardOpt = None,
                explanationText = []\<rparr> \<noteq> []"
proof -
  have h: "\<forall>line\<in>set (split (js ''Sideboard\<newline>1 Negate'') 10). \<not> is_deck_header (trim line)"
    by (simp add: char_classes parser_eval)
  have p: "parseDeckList (js ''Deck\<newline>4 Mountain'') =
       Parsed \<lparr>mainDeck = [\<lparr>count = 4, name = js ''Mountain''\<rparr>], sideboardOpt = None,
               explanationText = []\<rparr>"
    by (simp add: char_classes parser_eval)
  from h C3_no_deck_outcome [of "js ''Sideboard\<newline>1 Negate''"]
  have a: "parseDeckList (js ''Sideboard\<newline>1 Negate'') = NoDeck" by blast
  from p C3_no_deck_outcome [of "js ''Deck\<newline>4 Mountain''"]
  have b: "mainDeck \<lparr>mainDeck = [\<lparr>count = 4, name = js ''Mountain''\<rparr>], sideboardOpt = None,
                explanationText = []\<rparr> \<noteq> []" by blast
  from h have "list_all (\<lambda>line. \<not> is_deck_header (trim line)) (split (js ''Sideboard\<newline>1 Negate'') 10)"
    by (simp only: list_all_iff)
  with a b p show ?thesis by (simp only: simp_thms)
qed

section \<open>The entries the parser records\<close>













section \<open>Rendering and parsing again\<close>

lemma entry_line_text: "entry_line e = entry_text e @ [10]"
  by (simp add: entry_line_def entry_text_def)

































section \<open>The colour filter\<close>

lemmas example_eval = example_cards_def example_names_def example_map_def example_deck_def

lemma filter_throwing_total:
  "filter_throwing (\<lambda>x. case m x of None \<Rightarrow> Inl TypeError | Some v \<Rightarrow> Inr (q v)) xs =
     (if set xs \<subseteq> dom m then Inr (filter (\<lambda>x. \<exists>v. m x = Some v \<and> q v) xs) else Inl TypeError)"
proof (induction xs)
  case Nil
  show ?case by simp
next
  case (Cons x xs)
  show ?case
  proof (cases "m x")
    case None
    then show ?thesis by (auto simp: dom_def)
  next
    case (Some v)
    with Cons show ?thesis by (auto simp: dom_def)
  qed
qed

lemma only_marker_removed: "(A - {x} = {} \<and> x \<notin> A) = (A = {})"
  by auto

lemma keeps_card_claimed:
  "keeps_card (js ''C'' \<in> set selection) (filter (\<lambda>c. c \<noteq> js ''C'') selection) c
     = claimed_keep selection c"
proof -
  let ?W = "js ''C'' \<in> set selection"
  let ?U = "filter (\<lambda>c. c \<noteq> js ''C'') selection"
  have w: "set ?U = set selection - {js ''C''}" by auto
  have u: "(length ?U = 0) = (set selection - {js ''C''} = {})"
    by (auto simp: filter_empty_conv)
  have a: "list_all (\<lambda>x. x \<in> set ?U) (colorIdentity c) =
      (set (colorIdentity c) \<subseteq> set selection - {js ''C''})"
    unfolding w by (auto simp: list_all_iff)
  have k: "keeps_card ?W ?U c =
     (if includes_str (typeLine c) (js ''Basic Land'') then True
      else if set selection = {} then True
      else if set (colorIdentity c) = {} then ?W \<or> set selection - {js ''C''} = {}
      else set (colorIdentity c) \<subseteq> set selection - {js ''C''})"
    unfolding keeps_card_def Let_def u a only_marker_removed by simp
  show ?thesis unfolding k claimed_keep_def by auto
qed

text \<open>
  Claim C1: for every catalog (each listed name has a card record) and every selection,
  \<^verbatim>\<open>getFilteredCardList\<close> returns a list, and a name is in it exactly when it is a name of
  the catalog whose card is a basic land, or the selection is empty, or the card is
  colourless and the selection has the marker C or nothing but C, or the card has
  colours and each of them is in the selection without C.
\<close>

theorem C1_color_filter:
  assumes "set cardNames \<subseteq> dom cardDataMap"
  shows "\<exists>result. getFilteredCardList cardNames cardDataMap selection = Inr result \<and>
           (\<forall>nm. nm \<in> set result \<longleftrightarrow>
              nm \<in> set cardNames \<and> (\<exists>c. cardDataMap nm = Some c \<and> claimed_keep selection c))"
  using assms
  by (simp add: getFilteredCardList_def Let_def filter_throwing_total keeps_card_claimed)


theorem C1_color_filter_witness:
  "set example_names \<subseteq> dom example_map
   \<and> (\<exists>result. getFilteredCardList example_names example_map [js ''R''] = Inr result \<and>
         (\<forall>nm. nm \<in> set result \<longleftrightarrow>
            nm \<in> set example_names \<and>
            (\<exists>c. example_map nm = Some c \<and> claimed_keep [js ''R''] c)))"
proof -
  have h: "set example_names \<subseteq> dom example_map"
    by (simp add: example_eval js_def)
  from h C1_color_filter [OF h] show ?thesis by (rule conjI)
qed

section \<open>The classification of the prompt\<close>

text \<open>
  Claim C8, as the code behaves: \<^verbatim>\<open>buildCardListText\<close> gives each card the first keyword
  of the list Creature, Instant, Sorcery, Enchantment, Artifact, Planeswalker, Land,
  Battle that its type line contains, and "Other" when it contains none; so a type line
  that contains Battle and Land and none of the six keywords before them is classified
  as Land.
\<close>

theorem C8_first_match:
  "baseType tline = first_match tested_keywords tline
   \<and> (includes_str tline (js ''Battle'') \<and> includes_str tline (js ''Land'')
        \<and> find (\<lambda>k. includes_str tline k) (take 6 tested_keywords) = None
      \<longrightarrow> baseType tline = js ''Land'')"
  by (simp add: baseType_def first_match_def tested_keywords_def)

theorem C8_first_match_witness:
  "includes_str (js ''Battle Land'') (js ''Battle'') \<and> includes_str (js ''Battle Land'') (js ''Land'')
   \<and> find (\<lambda>k. includes_str (js ''Battle Land'') k) (take 6 tested_keywords) = None
   \<and> baseType (js ''Battle Land'') = js ''Land''"
proof -
  have h: "includes_str (js ''Battle Land'') (js ''Battle'') \<and> includes_str (js ''Battle Land'') (js ''Land'')
   \<and> find (\<lambda>k. includes_str (js ''Battle Land'') k) (take 6 tested_keywords) = None"
    by (simp add: tested_keywords_def js_def)
  with C8_first_match [of "js ''Battle Land''"] have "baseType (js ''Battle Land'') = js ''Land''"
    by blast
  with h show ?thesis by simp
qed

text \<open>
  Claim C8 as it is stated, with Battle tested before Land, does not hold of the code:
  a type line with both keywords is classified as Land, not as Battle.
\<close>

theorem C8_battle_land_counterexample:
  "baseType (js ''Battle Land'') \<noteq> first_match claimed_keywords (js ''Battle Land'')
   \<and> baseType (js ''Battle Land'') \<noteq> js ''Battle''"
  by (simp add: baseType_def first_match_def claimed_keywords_def js_def)

section \<open>The statistics\<close>


lemma bucket_label_clamped:
  assumes "0 \<le> cmc data"
  shows "bucket_label (cmcBucket data) = clamped_key (cmc data)"
proof -
  from assms have "0 \<le> \<lfloor>cmc data\<rfloor>" by simp
  then show ?thesis
    by (simp add: bucket_label_def cmcBucket_def clamped_key_def Let_def max_def min_def)
qed








lemma stats_entry_manaCurve_other:
  "cardDataMap (name e) = None \<or>
   (\<exists>data. cardDataMap (name e) = Some data \<and> includes_str (typeLine data) (js ''Land'')) \<Longrightarrow>
   manaCurve (stats_entry cardDataMap st e) = manaCurve st"
  by (auto simp add: stats_entry_def Let_def split: option.splits)

lemma stats_entry_manaCurve:
  assumes "cardDataMap (name e) = Some data" "\<not> includes_str (typeLine data) (js ''Land'')"
  shows "manaCurve (stats_entry cardDataMap st e) =
     (manaCurve st)(bucket_label (cmcBucket data) \<mapsto>
        curve_value (manaCurve st) (bucket_label (cmcBucket data)) + count e)"
  using assms by (simp add: stats_entry_def Let_def)















text \<open>
  The whole loop, bucket by bucket: the value of each key at the end is the sum of the
  counts of the entries that fall in its bucket.
\<close>

lemma stats_entry_curve_value:
  assumes "\<forall>data. cardDataMap (name e) = Some data \<longrightarrow> 0 \<le> cmc data"
  shows "curve_value (manaCurve (stats_entry cardDataMap st e)) k =
     curve_value (manaCurve st) k + bucket_count cardDataMap k e"
proof (cases "cardDataMap (name e)")
  case None
  then show ?thesis by (simp add: stats_entry_manaCurve_other bucket_count_def)
next
  case (Some data)
  show ?thesis
  proof (cases "includes_str (typeLine data) (js ''Land'')")
    case True
    with Some show ?thesis by (simp add: stats_entry_manaCurve_other bucket_count_def)
  next
    case False
    from assms Some have "0 \<le> cmc data" by simp
    then have l: "bucket_label (cmcBucket data) = clamped_key (cmc data)"
      by (rule bucket_label_clamped)
    show ?thesis
      unfolding stats_entry_manaCurve [of cardDataMap e data st, OF Some False] l
      using Some False by (simp add: bucket_count_def curve_value_def)
  qed
qed

lemma curve_value_loop:
  assumes "\<forall>e\<in>set es. \<forall>data. cardDataMap (name e) = Some data \<longrightarrow> 0 \<le> cmc data"
  shows "curve_value (manaCurve (foldl (stats_entry cardDataMap) st es)) k =
           curve_value (manaCurve st) k + sum_list (map (bucket_count cardDataMap k) es)"
  using assms
proof (induction es arbitrary: st)
  case Nil
  show ?case by simp
next
  case (Cons e es)
  then show ?case by (simp add: stats_entry_curve_value)
qed

lemma curve_value_final:
  assumes "\<forall>e\<in>set allCards. \<forall>data. cardDataMap (name e) = Some data \<longrightarrow> 0 \<le> cmc data"
  shows "curve_value (manaCurve (computeAndDisplayStats cardDataMap allCards)) k =
           sum_list (map (bucket_count cardDataMap k) allCards)"
  using curve_value_loop [OF assms, of stats_init k]
  by (simp add: computeAndDisplayStats_def stats_init_def curve_value_def)

section \<open>The proxy\<close>

lemma Math_min_limit: "within_limit (Math_min x (Fin 8000))"
  by (cases x) (simp_all add: within_limit_def)

lemma build_payload_accepted:
  assumes "accepted body"
  shows "build_payload conv (Some body) =
     Forward \<lparr>model = js_or (requested body (js ''model'')) (JStr (js ''gpt-4o'')),
          messages = the (requested body (js ''messages'')),
          temperature = js_nullish (requested body (js ''temperature'')) (JNum (7 / 10)),
          max_tokens = Math_min (ToNumber conv (js_or (requested body (js ''max_tokens'')) (JNum 4000))) (Fin 8000)\<rparr>"
  using assms
  by (auto simp: build_payload_def accepted_def requested_def get_prop_def
      split: json.splits option.splits list.splits sum.splits)

text \<open>
  Claim C10, as the code behaves: for every body that the proxy accepts (its field
  \<^verbatim>\<open>messages\<close> is a non-empty array), the Pages function with an API key and the worker
  on a POST request from an allowed origin forward the same payload. Its
  \<^verbatim>\<open>max_tokens\<close> is 4000 when the field is absent or falsy, and the smaller of \<open>m\<close> and 8000
  when the field is a number \<open>r\<close>, where \<open>m\<close> is \<open>r\<close>, or 4000 when \<open>r\<close> is 0; it never exceeds
  8000.
  The model is "gpt-4o" and the temperature 0.7 when these fields are absent.
\<close>

theorem C10_forwarded_payload:
  assumes "accepted body" "apiKey \<noteq> None" "apiKey \<noteq> Some []" "og \<in> set ALLOWED_ORIGINS"
  shows "\<exists>p. onRequestPost conv apiKey (Some body) = Forward p
     \<and> fetch conv \<lparr>requestMethod = js ''POST'', originHeader = Some og, parsedBody = Some body\<rparr>
         = Forward p
     \<and> (requested body (js ''max_tokens'') = None \<longrightarrow> max_tokens p = Fin 4000)
     \<and> (\<forall>r. requested body (js ''max_tokens'') = Some (JNum r) \<longrightarrow>
            max_tokens p = Fin (min (if r = 0 then 4000 else r) 8000))
     \<and> (\<forall>v. requested body (js ''max_tokens'') = Some v \<and> \<not> truthy (Some v) \<longrightarrow>
            max_tokens p = Fin 4000)
     \<and> within_limit (max_tokens p)
     \<and> (requested body (js ''model'') = None \<longrightarrow> model p = JStr (js ''gpt-4o''))
     \<and> (requested body (js ''temperature'') = None \<longrightarrow> temperature p = JNum (7 / 10))"
proof -
  let ?p = "\<lparr>model = js_or (requested body (js ''model'')) (JStr (js ''gpt-4o'')),
          messages = the (requested body (js ''messages'')),
          temperature = js_nullish (requested body (js ''temperature'')) (JNum (7 / 10)),
          max_tokens = Math_min (ToNumber conv (js_or (requested body (js ''max_tokens'')) (JNum 4000))) (Fin 8000)\<rparr>"
  have b: "build_payload conv (Some body) = Forward ?p"
    using assms(1) by (rule build_payload_accepted)
  have 1: "onRequestPost conv apiKey (Some body) = Forward ?p"
    using assms(2,3) b by (simp add: onRequestPost_def)
  have "og \<noteq> []" using assms(4) by (auto simp: ALLOWED_ORIGINS_def js_def)
  have post: "js ''POST'' \<noteq> js ''OPTIONS''" by (simp add: js_def)
  have 2: "fetch conv \<lparr>requestMethod = js ''POST'', originHeader = Some og, parsedBody = Some body\<rparr>
         = Forward ?p"
    using assms(4) b post by (simp add: fetch_def)
  have 3: "requested body (js ''max_tokens'') = None \<longrightarrow> max_tokens ?p = Fin 4000"
    by (simp add: js_or_def ToNumber_def)
  have 4: "\<forall>r. requested body (js ''max_tokens'') = Some (JNum r) \<longrightarrow>
            max_tokens ?p = Fin (min (if r = 0 then 4000 else r) 8000)"
    by (simp add: js_or_def ToNumber_def)
  have 8: "\<forall>v. requested body (js ''max_tokens'') = Some v \<and> \<not> truthy (Some v) \<longrightarrow>
            max_tokens ?p = Fin 4000"
    by (simp add: js_or_def ToNumber_def)
  have 5: "within_limit (max_tokens ?p)" by (simp add: Math_min_limit)
  have 6: "requested body (js ''model'') = None \<longrightarrow> model ?p = JStr (js ''gpt-4o'')"
    by (simp add: js_or_def)
  have 7: "requested body (js ''temperature'') = None \<longrightarrow> temperature ?p = JNum (7 / 10)"
    by (simp add: js_nullish_def)
  have "onRequestPost conv apiKey (Some body) = Forward ?p
     \<and> fetch conv \<lparr>requestMethod = js ''POST'', originHeader = Some og, parsedBody = Some body\<rparr>
         = Forward ?p
     \<and> (requested body (js ''max_tokens'') = None \<longrightarrow> max_tokens ?p = Fin 4000)
     \<and> (\<forall>r. requested body (js ''max_tokens'') = Some (JNum r) \<longrightarrow>
            max_tokens ?p = Fin (min (if r = 0 then 4000 else r) 8000))
     \<and> (\<forall>v. requested body (js ''max_tokens'') = Some v \<and> \<not> truthy (Some v) \<longrightarrow>
            max_tokens ?p = Fin 4000)
     \<and> within_limit (max_tokens ?p)
     \<and> (requested body (js ''model'') = None \<longrightarrow> model ?p = JStr (js ''gpt-4o''))
     \<and> (requested body (js ''temperature'') = None \<longrightarrow> temperature ?p = JNum (7 / 10))"
    by (intro conjI 1 2 3 4 8 5 6 7)
  then show ?thesis by (rule exI [where x = ?p])
qed

theorem C10_forwarded_payload_witness:
  "accepted example_body \<and> js ''http://localhost:8000'' \<in> set ALLOWED_ORIGINS
   \<and> requested example_body (js ''max_tokens'') = Some (JNum 9000)
   \<and> requested example_body (js ''model'') = None
   \<and> requested example_body (js ''temperature'') = None
   \<and> (\<exists>p. onRequestPost (\<lambda>v. NaN) (Some (js ''sk-test'')) (Some example_body) = Forward p
        \<and> fetch (\<lambda>v. NaN) \<lparr>requestMethod = js ''POST'',
             originHeader = Some (js ''http://localhost:8000''), parsedBody = Some example_body\<rparr>
            = Forward p
        \<and> max_tokens p = Fin 8000 \<and> model p = JStr (js ''gpt-4o'') \<and> temperature p = JNum (7 / 10))"
proof -
  have h1: "accepted example_body"
    by (simp add: accepted_def requested_def get_prop_def example_body_def js_def)
  have h2: "Some (js ''sk-test'') \<noteq> None" "Some (js ''sk-test'') \<noteq> Some []"
    by (simp_all add: js_def)
  have h3: "js ''http://localhost:8000'' \<in> set ALLOWED_ORIGINS"
    by (simp add: ALLOWED_ORIGINS_def)
  have r: "requested example_body (js ''max_tokens'') = Some (JNum 9000)"
    "requested example_body (js ''model'') = None"
    "requested example_body (js ''temperature'') = None"
    by (simp_all add: requested_def get_prop_def example_body_def js_def)
  from C10_forwarded_payload [OF h1 h2 h3, of "\<lambda>v. NaN"] r
  have "\<exists>p. onRequestPost (\<lambda>v. NaN) (Some (js ''sk-test'')) (Some example_body) = Forward p
        \<and> fetch (\<lambda>v. NaN) \<lparr>requestMethod = js ''POST'',
             originHeader = Some (js ''http://localhost:8000''), parsedBody = Some example_body\<rparr>
            = Forward p
        \<and> max_tokens p = Fin 8000 \<and> model p = JStr (js ''gpt-4o'') \<and> temperature p = JNum (7 / 10)"
    by auto
  with h1 h3 r show ?thesis by (intro conjI)
qed

text \<open>
  Claim C10 as it is stated, with 4000 only when the field is absent, does not hold of
  the code: a request with \<^verbatim>\<open>max_tokens\<close> 0 is forwarded with 4000, since \<^verbatim>\<open>||\<close> replaces
  every falsy value, where the smaller of 0 and 8000 is 0.
\<close>

theorem C10_zero_max_tokens_counterexample:
  "onRequestPost (\<lambda>v. NaN) (Some (js ''sk-test''))
     (Some (JObj [(js ''messages'', JArr [JStr (js ''hi'')]), (js ''max_tokens'', JNum 0)])) =
   Forward \<lparr>model = JStr (js ''gpt-4o''), messages = JArr [JStr (js ''hi'')],
            temperature = JNum (7 / 10), max_tokens = Fin 4000\<rparr>"
  by (simp add: onRequestPost_def build_payload_def get_prop_def js_or_def js_nullish_def
      ToNumber_def js_def)


end
